theory Spec2Isabelle
  imports Complex_Main
begin

section \<open>The movie player component (src/components/MoviePlayer.tsx)\<close>

text \<open>
  The component is a React function component: a set of state cells (\<open>useState\<close>), a few
  refs to DOM nodes (\<open>useRef\<close>) and event handlers that update them. Each handler is
  embedded as a function from the component's state to its next state. JavaScript numbers
  are taken as reals (the handlers only compare, add, subtract, multiply and divide them),
  except where a number that is not finite can arise: the duration, which the native
  element reports as \<open>Infinity\<close> for media of unknown length, and the quotient of a
  division by a zero width.
\<close>

subsection \<open>Strings\<close>

definition startsWith :: "string \<Rightarrow> string \<Rightarrow> bool" where
  "startsWith s p = (take (length p) s = p)"

definition endsWith :: "string \<Rightarrow> string \<Rightarrow> bool" where
  "endsWith s p = (length p \<le> length s \<and> drop (length s - length p) s = p)"

text \<open>\<open>a || b\<close> on strings: the empty string is falsy.\<close>

definition orElse :: "string \<Rightarrow> string \<Rightarrow> string" where
  "orElse a b = (if a = [] then b else a)"

text \<open>Decimal rendering of a non-negative integer (\<open>i.toString()\<close>, template literals).\<close>

fun toString :: "nat \<Rightarrow> string" where
  "toString n =
     (if n < 10 then [''0123456789'' ! n]
      else toString (n div 10) @ [''0123456789'' ! (n mod 10)])"

declare toString.simps [simp del]

text \<open>
  \<open>name.replace(/\.[^/.]+$/, "")\<close>: removes a final extension, that is a dot followed by
  one or more characters other than \<open>/\<close> and \<open>.\<close>, up to the end of the string.
\<close>

definition stripExtension :: "string \<Rightarrow> string" where
  "stripExtension name =
     (let r = rev name;
          ext = takeWhile (\<lambda>c. c \<noteq> CHR ''/'' \<and> c \<noteq> CHR ''.'') r;
          rest = dropWhile (\<lambda>c. c \<noteq> CHR ''/'' \<and> c \<noteq> CHR ''.'') r
      in case rest of
           [] \<Rightarrow> name
         | c # stem \<Rightarrow> if c = CHR ''.'' \<and> ext \<noteq> [] then rev stem else name)"

subsection \<open>Numbers that need not be finite\<close>

text \<open>
  \<open>video.duration\<close> as the component reads it, in the handler of \<open>loadedmetadata\<close>: a
  number, or \<open>Infinity\<close> for media whose length is unknown (a stream, a recording
  without a duration in its header). The state cell \<open>duration\<close> holds 0 or such a value.
\<close>

datatype js_duration = Finite real | Infinity

text \<open>
  The value of an arithmetic expression: a finite number, or one of \<open>NaN\<close>, \<open>Infinity\<close>
  and \<open>-Infinity\<close>, which the setter of \<open>currentTime\<close> tells from no other.
\<close>

datatype js_number = Number real | NonFinite

text \<open>\<open>Math.min(d, x)\<close> for a duration \<open>d\<close> and a finite \<open>x\<close>.\<close>

fun minDuration :: "js_duration \<Rightarrow> real \<Rightarrow> real" where
  "minDuration (Finite d) x = min d x"
| "minDuration Infinity x = x"

text \<open>\<open>a / b\<close> on finite numbers: not finite when \<open>b\<close> is 0.\<close>

definition js_divide :: "real \<Rightarrow> real \<Rightarrow> js_number" where
  "js_divide a b = (if b = 0 then NonFinite else Number (a / b))"

text \<open>
  \<open>p * d\<close> for a duration \<open>d\<close>: finite only when both are (\<open>0 * Infinity\<close> is \<open>NaN\<close>).
\<close>

fun js_times :: "js_number \<Rightarrow> js_duration \<Rightarrow> js_number" where
  "js_times (Number p) (Finite d) = Number (p * d)"
| "js_times (Number p) Infinity = NonFinite"
| "js_times NonFinite d = NonFinite"

subsection \<open>Data\<close>

record AudioTrack =
  at_id :: string
  at_label :: string
  at_language :: string

record SubtitleTrack =
  st_id :: string
  st_label :: string
  st_language :: string
  st_src :: string

text \<open>A \<open>File\<close> as the handlers read it: its name and its MIME type.\<close>

record File =
  file_name :: string
  file_type :: string

text \<open>
  The native \<open>HTMLVideoElement\<close> behind \<open>videoRef\<close>, reduced to the attributes the
  handlers read or write. \<open>el_error\<close> is \<open>video.error\<close> (its \<open>code\<close> when present),
  \<open>el_audioTracks\<close> is \<open>video.audioTracks\<close> as (label, language) pairs, absent where
  the browser does not expose it.
\<close>

record video_element =
  el_src :: string
  el_currentTime :: real
  el_duration :: js_duration
  el_volume :: real
  el_muted :: bool
  el_paused :: bool
  el_playbackRate :: real
  el_error :: "nat option"
  el_audioTracks :: "(string \<times> string) list option"

text \<open>The bounding rectangle of the progress bar behind \<open>progressRef\<close>.\<close>

record rect =
  rect_left :: real
  rect_width :: real

datatype dom_exception = IndexSizeError | TypeError

text \<open>
  The component: the \<open>useState\<close> cells under their source names, the refs, and the part of
  the document the handlers touch (\<open>document.fullscreenElement\<close>, the registry of object
  URLs made by \<open>URL.createObjectURL\<close>). \<open>controlsTimeoutRef\<close> holds the delay of the
  pending timer, \<open>None\<close> when no timer is pending.
\<close>

record player =
  videoFile :: "string option"
  fileName :: string
  fileFormat :: string
  videoError :: "string option"
  isVideoLoaded :: bool
  isPlaying :: bool
  currentTime :: real
  duration :: js_duration
  volume :: real
  isMuted :: bool
  isFullscreen :: bool
  showControls :: bool
  isDragging :: bool
  audioTracks :: "AudioTrack list"
  selectedAudioTrack :: string
  showSettingsMenu :: bool
  subtitleTracks :: "SubtitleTrack list"
  selectedSubtitleTrack :: string
  showShortcuts :: bool
  isBuffering :: bool
  playbackRate :: real
  videoRef :: "video_element option"
  progressRef :: "rect option"
  containerRef :: bool
  controlsTimeoutRef :: "nat option"
  fullscreenElement :: bool
  nextObjectURL :: nat
  objectURLs :: "string list"

text \<open>The initial values of the \<open>useState\<close> and \<open>useRef\<close> calls; nothing is mounted.\<close>

definition initialPlayer :: player where
  "initialPlayer =
     \<lparr> videoFile = None, fileName = [], fileFormat = [], videoError = None,
       isVideoLoaded = False, isPlaying = False, currentTime = 0, duration = Finite 0,
       volume = 1, isMuted = False, isFullscreen = False, showControls = True,
       isDragging = False, audioTracks = [], selectedAudioTrack = [],
       showSettingsMenu = False, subtitleTracks = [], selectedSubtitleTrack = ''off'',
       showShortcuts = False, isBuffering = False, playbackRate = 1,
       videoRef = None, progressRef = None, containerRef = False,
       controlsTimeoutRef = None, fullscreenElement = False,
       nextObjectURL = 0, objectURLs = [] \<rparr>"

subsection \<open>The host platform\<close>

text \<open>
  \<open>URL.createObjectURL\<close> returns a URL not handed out before and keeps it registered
  until it is revoked.
\<close>

definition createObjectURL :: "player \<Rightarrow> string \<times> player" where
  "createObjectURL s =
     (let url = ''blob:'' @ toString (nextObjectURL s)
      in (url, s\<lparr>nextObjectURL := nextObjectURL s + 1, objectURLs := objectURLs s @ [url]\<rparr>))"

text \<open>\<open>video.play()\<close>, \<open>video.pause()\<close> and \<open>video.load()\<close> on the native element.\<close>

definition el_play :: "video_element \<Rightarrow> video_element" where
  "el_play el = el\<lparr>el_paused := False\<rparr>"

definition el_pause :: "video_element \<Rightarrow> video_element" where
  "el_pause el = el\<lparr>el_paused := True\<rparr>"

definition el_load :: "video_element \<Rightarrow> video_element" where
  "el_load el = el\<lparr>el_paused := True, el_currentTime := 0, el_error := None\<rparr>"

text \<open>
  The setter of \<open>video.volume\<close> raises \<open>IndexSizeError\<close> outside \<open>[0, 1]\<close>. The setter
  of \<open>video.currentTime\<close> records the requested position and raises \<open>TypeError\<close> on a
  value that is not finite.
\<close>

fun set_el_currentTime :: "js_number \<Rightarrow> video_element \<Rightarrow> dom_exception + video_element" where
  "set_el_currentTime (Number x) el = Inr (el\<lparr>el_currentTime := x\<rparr>)"
| "set_el_currentTime NonFinite el = Inl TypeError"

definition set_el_volume :: "real \<Rightarrow> video_element \<Rightarrow> dom_exception + video_element" where
  "set_el_volume v el =
     (if 0 \<le> v \<and> v \<le> 1 then Inr (el\<lparr>el_volume := v\<rparr>) else Inl IndexSizeError)"

text \<open>The element a freshly mounted \<open><video src=...>\<close> starts as.\<close>

definition newVideoElement :: "string \<Rightarrow> video_element" where
  "newVideoElement url =
     \<lparr> el_src = url, el_currentTime = 0, el_duration = Finite 0, el_volume = 1,
       el_muted = False,
       el_paused = True, el_playbackRate = 1, el_error = None, el_audioTracks = None \<rparr>"

subsection \<open>File intake\<close>

definition handleFileSelect :: "File option \<Rightarrow> player \<Rightarrow> player" where
  "handleFileSelect files0 s =
     (case files0 of
        None \<Rightarrow> s
      | Some f \<Rightarrow>
          (let s1 = s\<lparr>videoError := None, isVideoLoaded := False, isPlaying := False,
                      currentTime := 0, duration := Finite 0\<rparr>;
               (url, s2) = createObjectURL s1
           in s2\<lparr>videoFile := Some url, fileName := file_name f,
                 fileFormat := orElse (file_type f) ''Unknown'',
                 subtitleTracks := [], selectedSubtitleTrack := ''off''\<rparr>))"

text \<open>The track both subtitle paths build; \<open>now\<close> is \<open>Date.now()\<close>.\<close>

definition newSubtitleTrack :: "File \<Rightarrow> nat \<Rightarrow> string \<Rightarrow> SubtitleTrack" where
  "newSubtitleTrack f now url =
     \<lparr> st_id = ''subtitle-'' @ toString now, st_label = stripExtension (file_name f),
       st_language = ''Unknown'', st_src = url \<rparr>"

definition addSubtitle :: "File \<Rightarrow> nat \<Rightarrow> player \<Rightarrow> player" where
  "addSubtitle f now s =
     (let (url, s1) = createObjectURL s;
          newTrack = newSubtitleTrack f now url
      in s1\<lparr>subtitleTracks := subtitleTracks s1 @ [newTrack],
            selectedSubtitleTrack := st_id newTrack\<rparr>)"

definition handleSubtitleSelect :: "File option \<Rightarrow> nat \<Rightarrow> player \<Rightarrow> player" where
  "handleSubtitleSelect files0 now s =
     (case files0 of None \<Rightarrow> s | Some f \<Rightarrow> addSubtitle f now s)"

definition isVideoFile :: "File \<Rightarrow> bool" where
  "isVideoFile f = startsWith (file_type f) ''video/''"

definition isSubtitleFile :: "File \<Rightarrow> bool" where
  "isSubtitleFile f =
     (endsWith (file_name f) ''.srt'' \<or> endsWith (file_name f) ''.vtt'' \<or>
      endsWith (file_name f) ''.ass'' \<or> endsWith (file_name f) ''.ssa'')"

definition handleDrop :: "File list \<Rightarrow> nat \<Rightarrow> player \<Rightarrow> player" where
  "handleDrop files now s =
     (let s1 = (case find isVideoFile files of
                  None \<Rightarrow> s
                | Some vf \<Rightarrow>
                    (let (url, s') = createObjectURL s
                     in s'\<lparr>videoFile := Some url, fileName := file_name vf,
                           fileFormat := orElse (file_type vf) ''Unknown'',
                           videoError := None, isVideoLoaded := False\<rparr>))
      in case find isSubtitleFile files of
           None \<Rightarrow> s1
         | Some sf \<Rightarrow> addSubtitle sf now s1)"

text \<open>The two buttons of the error panel.\<close>

definition tryAgain :: "player \<Rightarrow> player" where
  "tryAgain s =
     (let s1 = s\<lparr>videoError := None\<rparr>
      in case videoRef s1 of
           None \<Rightarrow> s1
         | Some el \<Rightarrow> s1\<lparr>videoRef := Some (el_load el)\<rparr>)"

definition chooseDifferentFile :: "player \<Rightarrow> player" where
  "chooseDifferentFile s = s\<lparr>videoFile := None, videoError := None, fileName := []\<rparr>"

subsection \<open>Playback control\<close>

definition togglePlayPause :: "player \<Rightarrow> player" where
  "togglePlayPause s =
     (case videoRef s of
        None \<Rightarrow> s
      | Some el \<Rightarrow>
          if isPlaying s then s\<lparr>videoRef := Some (el_pause el)\<rparr>
          else s\<lparr>videoRef := Some (el_play el)\<rparr>)"

definition skipBackward :: "player \<Rightarrow> player" where
  "skipBackward s =
     (case videoRef s of
        None \<Rightarrow> s
      | Some el \<Rightarrow>
          s\<lparr>videoRef := Some (el\<lparr>el_currentTime := max 0 (el_currentTime el - 10)\<rparr>)\<rparr>)"

definition skipForward :: "player \<Rightarrow> player" where
  "skipForward s =
     (case videoRef s of
        None \<Rightarrow> s
      | Some el \<Rightarrow>
          s\<lparr>videoRef :=
              Some (el\<lparr>el_currentTime := minDuration (duration s) (el_currentTime el + 10)\<rparr>)\<rparr>)"

definition toggleMute :: "player \<Rightarrow> player" where
  "toggleMute s =
     (case videoRef s of
        None \<Rightarrow> s
      | Some el \<Rightarrow>
          s\<lparr>isMuted := \<not> isMuted s, videoRef := Some (el\<lparr>el_muted := \<not> isMuted s\<rparr>)\<rparr>)"

text \<open>
  \<open>newVolume\<close> is \<open>parseFloat(event.target.value)\<close>. The two state cells are written
  first; an exception of the native setter leaves them written and skips the assignment
  of \<open>muted\<close>.
\<close>

definition handleVolumeChange :: "real \<Rightarrow> player \<Rightarrow> dom_exception option \<times> player" where
  "handleVolumeChange newVolume s =
     (let s1 = s\<lparr>volume := newVolume, isMuted := (newVolume = 0)\<rparr>
      in case videoRef s1 of
           None \<Rightarrow> (None, s1)
         | Some el \<Rightarrow>
             (case set_el_volume newVolume el of
                Inl e \<Rightarrow> (Some e, s1)
              | Inr el' \<Rightarrow> (None, s1\<lparr>videoRef := Some (el'\<lparr>el_muted := (newVolume = 0)\<rparr>)\<rparr>)))"

definition handlePlaybackRateChange :: "real \<Rightarrow> player \<Rightarrow> player" where
  "handlePlaybackRateChange rate s =
     (let s1 = s\<lparr>playbackRate := rate\<rparr>;
          s2 = (case videoRef s1 of
                  None \<Rightarrow> s1
                | Some el \<Rightarrow> s1\<lparr>videoRef := Some (el\<lparr>el_playbackRate := rate\<rparr>)\<rparr>)
      in s2\<lparr>showSettingsMenu := False\<rparr>)"

definition toggleFullscreen :: "player \<Rightarrow> player" where
  "toggleFullscreen s =
     (if containerRef s then
        (if \<not> fullscreenElement s then s\<lparr>fullscreenElement := True\<rparr>
         else s\<lparr>fullscreenElement := False\<rparr>)
      else s)"

definition handleFullscreenChange :: "player \<Rightarrow> player" where
  "handleFullscreenChange s = s\<lparr>isFullscreen := fullscreenElement s\<rparr>"

text \<open>
  A click on the progress bar at \<open>clientX\<close>. With a zero width or an infinite duration
  \<open>newTime\<close> is not finite and the assignment raises; the handler has changed nothing
  by then.
\<close>

definition handleProgressClick :: "real \<Rightarrow> player \<Rightarrow> dom_exception option \<times> player" where
  "handleProgressClick clientX s =
     (case (progressRef s, videoRef s) of
        (Some r, Some el) \<Rightarrow>
          (let clickX = clientX - rect_left r;
               width = rect_width r;
               percentage = js_divide clickX width;
               newTime = js_times percentage (duration s)
           in case set_el_currentTime newTime el of
                Inl e \<Rightarrow> (Some e, s)
              | Inr el' \<Rightarrow> (None, s\<lparr>videoRef := Some el'\<rparr>))
      | _ \<Rightarrow> (None, s))"

subsection \<open>Controls visibility\<close>

definition showControlsWithTimeout :: "player \<Rightarrow> player" where
  "showControlsWithTimeout s =
     (let s1 = s\<lparr>showControls := True\<rparr>;
          s2 = (case controlsTimeoutRef s1 of
                  None \<Rightarrow> s1
                | Some t \<Rightarrow> s1\<lparr>controlsTimeoutRef := None\<rparr>)
      in if isPlaying s2 then s2\<lparr>controlsTimeoutRef := Some 3000\<rparr> else s2)"

text \<open>The callback of the timer, run when the pending timer expires.\<close>

definition timerFires :: "player \<Rightarrow> player" where
  "timerFires s =
     (case controlsTimeoutRef s of
        None \<Rightarrow> s
      | Some t \<Rightarrow> s\<lparr>showControls := False, controlsTimeoutRef := None\<rparr>)"

definition handleMouseMove :: "player \<Rightarrow> player" where
  "handleMouseMove s = showControlsWithTimeout s"

definition handleMouseLeave :: "player \<Rightarrow> player" where
  "handleMouseLeave s = (if isPlaying s then s\<lparr>showControls := False\<rparr> else s)"

text \<open>
  The class of the controls overlay: opaque when \<open>showControls || !isPlaying\<close>,
  transparent otherwise.
\<close>

definition controlsOpaque :: "player \<Rightarrow> bool" where
  "controlsOpaque s = (showControls s \<or> \<not> isPlaying s)"

subsection \<open>Keyboard shortcuts\<close>

text \<open>
  The target of a key event as the guard of the dispatcher sees it: an
  \<open>HTMLInputElement\<close> (of some \<open>type\<close>; the volume slider is one of type \<open>range\<close>) or
  any other node.
\<close>

datatype input_type = TypeText | TypeRange | TypeFile

datatype event_target = HTMLInputElement input_type | OtherNode

record KeyboardEvent =
  ev_code :: string
  ev_target :: event_target

fun instanceofHTMLInputElement :: "event_target \<Rightarrow> bool" where
  "instanceofHTMLInputElement (HTMLInputElement ty) = True"
| "instanceofHTMLInputElement OtherNode = False"

text \<open>The result pairs the state with whether \<open>event.preventDefault()\<close> was called.\<close>

definition handleKeyPress :: "KeyboardEvent \<Rightarrow> player \<Rightarrow> bool \<times> player" where
  "handleKeyPress event s =
     (if instanceofHTMLInputElement (ev_target event) then (False, s)
      else if ev_code event = ''Space'' then (True, showControlsWithTimeout (togglePlayPause s))
      else if ev_code event = ''KeyM'' then (True, showControlsWithTimeout (toggleMute s))
      else if ev_code event = ''ArrowLeft'' then (True, showControlsWithTimeout (skipBackward s))
      else if ev_code event = ''ArrowRight'' then (True, showControlsWithTimeout (skipForward s))
      else if ev_code event = ''KeyF'' then (True, toggleFullscreen s)
      else if ev_code event = ''KeyK'' then (True, showControlsWithTimeout (togglePlayPause s))
      else if ev_code event = ''KeyJ'' then (True, showControlsWithTimeout (skipBackward s))
      else if ev_code event = ''KeyL'' then (True, showControlsWithTimeout (skipForward s))
      else (False, s))"

subsection \<open>Handlers of the native element's events\<close>

text \<open>The loop over \<open>video.audioTracks\<close>, from index \<open>i\<close>, pushing onto \<open>tracks\<close>.\<close>

fun collectAudioTracks :: "nat \<Rightarrow> (string \<times> string) list \<Rightarrow> AudioTrack list \<Rightarrow> AudioTrack list" where
  "collectAudioTracks i [] tracks = tracks"
| "collectAudioTracks i ((label, language) # rest) tracks =
     collectAudioTracks (i + 1) rest
       (tracks @ [\<lparr> at_id = toString i, at_label = orElse label (''Track '' @ toString (i + 1)),
                    at_language = orElse language ''Unknown'' \<rparr>])"

definition handleLoadedMetadata :: "player \<Rightarrow> player" where
  "handleLoadedMetadata s =
     (case videoRef s of
        None \<Rightarrow> s
      | Some el \<Rightarrow>
          (let s1 = s\<lparr>duration := el_duration el, isVideoLoaded := True, videoError := None\<rparr>;
               tracks = (case el_audioTracks el of
                           None \<Rightarrow> []
                         | Some ats \<Rightarrow> collectAudioTracks 0 ats []);
               s2 = s1\<lparr>audioTracks := tracks\<rparr>
           in if length tracks > 0 then s2\<lparr>selectedAudioTrack := ''0''\<rparr> else s2))"

definition handleTimeUpdate :: "player \<Rightarrow> player" where
  "handleTimeUpdate s =
     (case videoRef s of
        None \<Rightarrow> s
      | Some el \<Rightarrow> if \<not> isDragging s then s\<lparr>currentTime := el_currentTime el\<rparr> else s)"

definition handlePlay :: "player \<Rightarrow> player" where
  "handlePlay s = s\<lparr>isPlaying := True, isBuffering := False, videoError := None\<rparr>"

definition handlePause :: "player \<Rightarrow> player" where
  "handlePause s = s\<lparr>isPlaying := False\<rparr>"

definition handleWaiting :: "player \<Rightarrow> player" where
  "handleWaiting s = s\<lparr>isBuffering := True\<rparr>"

definition handleCanPlay :: "player \<Rightarrow> player" where
  "handleCanPlay s = s\<lparr>isBuffering := False\<rparr>"

definition errorMessage :: "nat \<Rightarrow> string" where
  "errorMessage code =
     (if code = 1 then ''Video loading was aborted''
      else if code = 2 then ''Network error occurred while loading video''
      else if code = 3 then ''Video format not supported or corrupted''
      else if code = 4 then ''Video format not supported by your browser''
      else ''Unknown video error occurred'')"

definition handleError :: "player \<Rightarrow> player" where
  "handleError s =
     (let s1 = s\<lparr>isBuffering := False, isPlaying := False\<rparr>
      in case videoRef s1 of
           None \<Rightarrow> s1
         | Some video \<Rightarrow>
             (case el_error video of
                None \<Rightarrow> s1
              | Some code \<Rightarrow> s1\<lparr>videoError := Some (errorMessage code)\<rparr>))"

definition handleLoadStart :: "player \<Rightarrow> player" where
  "handleLoadStart s = s\<lparr>isBuffering := True, videoError := None\<rparr>"

subsection \<open>Rendering and the event loop\<close>

text \<open>
  What a render commits to the refs: without a \<open>videoFile\<close> the upload screen is shown
  and no player node exists; with one, the container, the progress bar and the
  \<open><video>\<close> element are mounted, the element taking \<open>videoFile\<close> as its \<open>src\<close>.
  \<open>bar\<close> is the rectangle the layout gives the progress bar.
\<close>

definition render :: "rect \<Rightarrow> player \<Rightarrow> player" where
  "render bar s =
     (case videoFile s of
        None \<Rightarrow> s\<lparr>videoRef := None, progressRef := None, containerRef := False\<rparr>
      | Some url \<Rightarrow>
          s\<lparr>videoRef := Some (case videoRef s of
                                 None \<Rightarrow> newVideoElement url
                               | Some el \<Rightarrow> el\<lparr>el_src := url\<rparr>),
            progressRef := Some bar, containerRef := True\<rparr>)"

text \<open>
  Everything that can happen to the mounted component: the user's actions, the native
  element's events, the timer, and the platform changing the native element on its own
  (\<open>Platform\<close>: playback advancing, metadata arriving, an error being set).
\<close>

datatype event =
    FileSelect "File option"
  | SubtitleSelect "File option" nat
  | Drop "File list" nat
  | TryAgain
  | ChooseDifferentFile
  | ClickPlayPause
  | ClickSkipBackward
  | ClickSkipForward
  | ClickMute
  | VolumeChange real
  | PlaybackRateChange real
  | ClickFullscreen
  | FullscreenChange
  | ProgressClick real
  | MouseMove
  | MouseLeave
  | KeyDown KeyboardEvent
  | TimerFires
  | LoadStart
  | LoadedMetadata
  | TimeUpdate
  | Play
  | Pause
  | Waiting
  | CanPlay
  | Error
  | ToggleSettingsMenu
  | CloseSettingsMenu
  | SelectSubtitleTrack string
  | SelectAudioTrack string
  | HoverShortcuts bool
  | Platform video_element

fun handle :: "event \<Rightarrow> player \<Rightarrow> player" where
  "handle (FileSelect f) s = handleFileSelect f s"
| "handle (SubtitleSelect f now) s = handleSubtitleSelect f now s"
| "handle (Drop fs now) s = handleDrop fs now s"
| "handle TryAgain s = tryAgain s"
| "handle ChooseDifferentFile s = chooseDifferentFile s"
| "handle ClickPlayPause s = togglePlayPause s"
| "handle ClickSkipBackward s = skipBackward s"
| "handle ClickSkipForward s = skipForward s"
| "handle ClickMute s = toggleMute s"
| "handle (VolumeChange v) s = snd (handleVolumeChange v s)"
| "handle (PlaybackRateChange r) s = handlePlaybackRateChange r s"
| "handle ClickFullscreen s = toggleFullscreen s"
| "handle FullscreenChange s = handleFullscreenChange s"
| "handle (ProgressClick x) s = snd (handleProgressClick x s)"
| "handle MouseMove s = handleMouseMove s"
| "handle MouseLeave s = handleMouseLeave s"
| "handle (KeyDown e) s = snd (handleKeyPress e s)"
| "handle TimerFires s = timerFires s"
| "handle LoadStart s = handleLoadStart s"
| "handle LoadedMetadata s = handleLoadedMetadata s"
| "handle TimeUpdate s = handleTimeUpdate s"
| "handle Play s = handlePlay s"
| "handle Pause s = handlePause s"
| "handle Waiting s = handleWaiting s"
| "handle CanPlay s = handleCanPlay s"
| "handle Error s = handleError s"
| "handle ToggleSettingsMenu s = s\<lparr>showSettingsMenu := \<not> showSettingsMenu s\<rparr>"
| "handle CloseSettingsMenu s = s\<lparr>showSettingsMenu := False\<rparr>"
| "handle (SelectSubtitleTrack i) s = s\<lparr>selectedSubtitleTrack := i\<rparr>"
| "handle (SelectAudioTrack i) s = s\<lparr>selectedAudioTrack := i\<rparr>"
| "handle (HoverShortcuts b) s = s\<lparr>showShortcuts := b\<rparr>"
| "handle (Platform el) s =
     (case videoRef s of None \<Rightarrow> s | Some old \<Rightarrow> s\<lparr>videoRef := Some el\<rparr>)"

text \<open>One turn of the event loop: the handler runs, then the component renders.\<close>

definition step :: "rect \<Rightarrow> event \<Rightarrow> player \<Rightarrow> player" where
  "step bar e s = render bar (handle e s)"

fun run :: "rect \<Rightarrow> event list \<Rightarrow> player \<Rightarrow> player" where
  "run bar [] s = s"
| "run bar (e # es) s = run bar es (step bar e s)"

subsection \<open>Concrete states\<close>

definition exBar :: rect where
  "exBar = \<lparr> rect_left = 100, rect_width = 400 \<rparr>"

definition exMovie :: File where
  "exMovie = \<lparr> file_name = ''movie.mkv'', file_type = ''video/x-matroska'' \<rparr>"

definition exOther :: File where
  "exOther = \<lparr> file_name = ''other.mp4'', file_type = ''video/mp4'' \<rparr>"

definition exSubs :: File where
  "exSubs = \<lparr> file_name = ''subs.vtt'', file_type = [] \<rparr>"

text \<open>A video chosen with the picker and rendered: the player is mounted, paused at 0.\<close>

definition exLoaded :: player where
  "exLoaded = render exBar (handleFileSelect (Some exMovie) initialPlayer)"

text \<open>The same after the native element reported \<open>play\<close>.\<close>

definition exPlaying :: player where
  "exPlaying = handlePlay exLoaded"

text \<open>Playback interrupted by a native error with the given code.\<close>

definition exFailed :: "nat \<Rightarrow> player" where
  "exFailed code =
     handle (Platform ((newVideoElement ''blob:0'')\<lparr>el_error := Some code\<rparr>)) exPlaying"

text \<open>Metadata loaded with a duration of 125.4 s, playback at 120 s.\<close>

definition exWatching :: player where
  "exWatching =
     handleTimeUpdate (handleLoadedMetadata
       (handle (Platform ((newVideoElement ''blob:0'')
                  \<lparr>el_duration := Finite (627 / 5), el_currentTime := 120\<rparr>)) exLoaded))"

text \<open>Metadata loaded for a recording of unknown length, playback at 120 s.\<close>

definition exStreaming :: player where
  "exStreaming =
     handleTimeUpdate (handleLoadedMetadata
       (handle (Platform ((newVideoElement ''blob:0'')
                  \<lparr>el_duration := Infinity, el_currentTime := 120\<rparr>)) exLoaded))"

text \<open>
  The native error (code 3) surfaced and rendered; then the source discarded with
  "Choose Different File", which brings back the upload screen.
\<close>

definition exErrored :: player where
  "exErrored = render exBar (handleError (exFailed 3))"

definition exDiscarded :: player where
  "exDiscarded = render exBar (chooseDifferentFile exErrored)"

text \<open>
  A session of the event loop: a video is picked and started, the user mutes it, the
  element fails with code 3, the user discards the source and picks another video.
\<close>

definition exRemounted :: player where
  "exRemounted =
     run exBar
       [FileSelect (Some exMovie), ClickPlayPause, Play, ClickMute,
        Platform ((newVideoElement ''blob:0'')
          \<lparr>el_muted := True, el_paused := False, el_error := Some 3\<rparr>),
        Error, ChooseDifferentFile, FileSelect (Some exOther)]
       initialPlayer"

text \<open>Space pressed while the volume slider has the focus.\<close>

definition exSlider :: KeyboardEvent where
  "exSlider = \<lparr> ev_code = ''Space'', ev_target = HTMLInputElement TypeRange \<rparr>"

section \<open>Properties\<close>

subsection \<open>Auxiliary facts\<close>

lemma toString_digit: "n < 10 \<Longrightarrow> toString n = [''0123456789'' ! n]"
  by (simp add: toString.simps)

lemmas example_defs = exBar_def exMovie_def exOther_def exSubs_def exLoaded_def exPlaying_def
  exSlider_def initialPlayer_def

lemmas intake_defs = handleFileSelect_def handleDrop_def addSubtitle_def newSubtitleTrack_def
  createObjectURL_def isVideoFile_def isSubtitleFile_def startsWith_def endsWith_def
  stripExtension_def orElse_def chooseDifferentFile_def render_def newVideoElement_def
  toString_digit Let_def

lemmas control_defs = togglePlayPause_def skipBackward_def skipForward_def toggleMute_def
  toggleFullscreen_def showControlsWithTimeout_def el_play_def el_pause_def

lemma createObjectURL_fields [simp]:
  "videoFile (snd (createObjectURL s)) = videoFile s"
  "videoError (snd (createObjectURL s)) = videoError s"
  "currentTime (snd (createObjectURL s)) = currentTime s"
  "duration (snd (createObjectURL s)) = duration s"
  "subtitleTracks (snd (createObjectURL s)) = subtitleTracks s"
  "selectedSubtitleTrack (snd (createObjectURL s)) = selectedSubtitleTrack s"
  "objectURLs (snd (createObjectURL s)) = objectURLs s @ [fst (createObjectURL s)]"
  by (simp_all add: createObjectURL_def Let_def)

lemma addSubtitle_fields:
  "subtitleTracks (addSubtitle f now s) =
     subtitleTracks s @ [newSubtitleTrack f now (fst (createObjectURL s))]"
  "selectedSubtitleTrack (addSubtitle f now s) = ''subtitle-'' @ toString now"
  "videoError (addSubtitle f now s) = videoError s"
  "objectURLs (addSubtitle f now s) = objectURLs s @ [fst (createObjectURL s)]"
  by (simp_all add: addSubtitle_def newSubtitleTrack_def split_beta Let_def)

lemma exLoaded_videoRef: "videoRef exLoaded = Some (newVideoElement ''blob:0'')"
  by (simp add: intake_defs example_defs)

lemma exLoaded_paused: "\<not> isPlaying exLoaded"
  by (simp add: intake_defs example_defs)

lemma exFailed_videoRef:
  "videoRef (exFailed code) = Some ((newVideoElement ''blob:0'')\<lparr>el_error := Some code\<rparr>)"
  by (simp add: exFailed_def exPlaying_def handlePlay_def exLoaded_videoRef)

lemma exWatching_videoRef:
  "videoRef exWatching =
     Some ((newVideoElement ''blob:0'')\<lparr>el_duration := Finite (627 / 5), el_currentTime := 120\<rparr>)"
  by (simp add: exWatching_def handleTimeUpdate_def handleLoadedMetadata_def exLoaded_videoRef
      newVideoElement_def Let_def)

lemma exWatching_duration: "duration exWatching = Finite (627 / 5)"
  by (simp add: exWatching_def handleTimeUpdate_def handleLoadedMetadata_def exLoaded_videoRef
      newVideoElement_def Let_def)

lemma exWatching_progressRef: "progressRef exWatching = Some exBar"
  by (simp add: exWatching_def handleTimeUpdate_def handleLoadedMetadata_def exLoaded_videoRef
      newVideoElement_def Let_def)
    (simp add: exLoaded_def render_def handleFileSelect_def createObjectURL_def Let_def)

lemma exStreaming_videoRef:
  "videoRef exStreaming =
     Some ((newVideoElement ''blob:0'')\<lparr>el_duration := Infinity, el_currentTime := 120\<rparr>)"
  by (simp add: exStreaming_def handleTimeUpdate_def handleLoadedMetadata_def exLoaded_videoRef
      newVideoElement_def Let_def)

lemma exStreaming_duration: "duration exStreaming = Infinity"
  by (simp add: exStreaming_def handleTimeUpdate_def handleLoadedMetadata_def exLoaded_videoRef
      newVideoElement_def Let_def)

lemma exStreaming_progressRef: "progressRef exStreaming = Some exBar"
  by (simp add: exStreaming_def handleTimeUpdate_def handleLoadedMetadata_def exLoaded_videoRef
      newVideoElement_def Let_def)
    (simp add: exLoaded_def render_def handleFileSelect_def createObjectURL_def Let_def)

lemma exFailed_fields:
  "videoFile (exFailed code) = Some ''blob:0''"
  "objectURLs (exFailed code) = [''blob:0'']"
  "nextObjectURL (exFailed code) = 1"
  by (simp_all add: exFailed_def exPlaying_def handlePlay_def exLoaded_videoRef)
    (simp_all add: intake_defs example_defs)

lemma exErrored_fields:
  "videoFile exErrored = Some ''blob:0''"
  "videoError exErrored = Some ''Video format not supported or corrupted''"
  "objectURLs exErrored = [''blob:0'']"
  "nextObjectURL exErrored = 1"
  by (simp_all add: exErrored_def render_def handleError_def errorMessage_def exFailed_videoRef
      exFailed_fields Let_def)

lemma exDiscarded_fields:
  "videoFile exDiscarded = None"
  "videoRef exDiscarded = None"
  "objectURLs exDiscarded = [''blob:0'']"
  "nextObjectURL exDiscarded = 1"
  by (simp_all add: exDiscarded_def render_def chooseDifferentFile_def exErrored_fields)

lemmas session_defs = exRemounted_def step_def intake_defs handlePlay_def toggleMute_def
  togglePlayPause_def el_play_def handleError_def errorMessage_def initialPlayer_def
  exMovie_def exOther_def

lemma exRemounted_muted: "isMuted exRemounted"
  by (simp add: session_defs)

lemma exRemounted_videoRef: "videoRef exRemounted = Some (newVideoElement ''blob:1'')"
  by (simp add: session_defs)

text \<open>
  What a drop carrying a video and no subtitle file leaves as it was: the position, the
  duration and the subtitle tracks of the state it is dropped on.
\<close>

lemma handleDrop_video_only:
  "find isVideoFile files = Some vf \<Longrightarrow> find isSubtitleFile files = None \<Longrightarrow>
   currentTime (handleDrop files now s) = currentTime s \<and>
   duration (handleDrop files now s) = duration s \<and>
   subtitleTracks (handleDrop files now s) = subtitleTracks s \<and>
   selectedSubtitleTrack (handleDrop files now s) = selectedSubtitleTrack s"
  by (simp add: handleDrop_def split_beta)

text \<open>The controls leave \<open>isPlaying\<close> and the timer alone.\<close>

lemma controls_keep_timer [simp]:
  "isPlaying (togglePlayPause s) = isPlaying s"
  "isPlaying (toggleMute s) = isPlaying s"
  "isPlaying (skipBackward s) = isPlaying s"
  "isPlaying (skipForward s) = isPlaying s"
  "controlsTimeoutRef (togglePlayPause s) = controlsTimeoutRef s"
  "controlsTimeoutRef (toggleMute s) = controlsTimeoutRef s"
  "controlsTimeoutRef (skipBackward s) = controlsTimeoutRef s"
  "controlsTimeoutRef (skipForward s) = controlsTimeoutRef s"
  "controlsTimeoutRef (toggleFullscreen s) = controlsTimeoutRef s"
  by (simp_all add: control_defs split: option.splits)

lemma showControlsWithTimeout_timer:
  "controlsTimeoutRef (showControlsWithTimeout s) = (if isPlaying s then Some 3000 else None)"
  by (simp add: showControlsWithTimeout_def Let_def split: option.splits)

lemma render_timer [simp]: "controlsTimeoutRef (render bar s) = controlsTimeoutRef s"
  by (simp add: render_def split: option.splits)

lemma handleKeyPress_timer:
  "controlsTimeoutRef (snd (handleKeyPress e s)) \<noteq> None \<Longrightarrow>
   controlsTimeoutRef s \<noteq> None \<or> isPlaying s"
  by (simp add: handleKeyPress_def showControlsWithTimeout_timer split: if_splits)

text \<open>No handler leaves a timer pending unless one was pending or playback is on.\<close>

lemma handle_timer:
  assumes "controlsTimeoutRef (handle e s) \<noteq> None"
  shows "controlsTimeoutRef s \<noteq> None \<or> isPlaying s"
  using assms
proof (cases e)
  case (KeyDown k)
  with assms show ?thesis using handleKeyPress_timer [of k s] by simp
next
  case MouseMove
  with assms show ?thesis
    by (simp add: handleMouseMove_def showControlsWithTimeout_timer split: if_splits)
qed (auto simp: handleFileSelect_def handleSubtitleSelect_def handleDrop_def addSubtitle_def
      createObjectURL_def tryAgain_def chooseDifferentFile_def control_defs
      handleVolumeChange_def handlePlaybackRateChange_def handleFullscreenChange_def
      handleProgressClick_def handleMouseLeave_def timerFires_def handleLoadStart_def
      handleLoadedMetadata_def handleTimeUpdate_def handlePlay_def handlePause_def
      handleWaiting_def handleCanPlay_def handleError_def Let_def split_beta
      split: option.splits if_splits sum.splits)

subsection \<open>File intake\<close>




text \<open>
  Claim C2, as the code has it. Neither choosing a video (picker or drop) nor discarding
  the current one revokes an object URL: every URL registered before the operation is
  registered after it, the URL of the previous source among them.
\<close>

theorem object_url_stays_registered:
  "u \<in> set (objectURLs s) \<Longrightarrow>
   u \<in> set (objectURLs (handleFileSelect fo s)) \<and>
   u \<in> set (objectURLs (handleDrop files now s)) \<and>
   u \<in> set (objectURLs (chooseDifferentFile s))"
  by (auto simp: handleFileSelect_def handleDrop_def addSubtitle_fields split_beta Let_def
        chooseDifferentFile_def split: option.splits)

theorem object_url_stays_registered_witness:
  "''blob:0'' \<in> set (objectURLs exErrored) \<and>
   ''blob:0'' \<in> set (objectURLs (chooseDifferentFile exErrored)) \<and>
   ''blob:0'' \<in> set (objectURLs exDiscarded) \<and>
   ''blob:0'' \<in> set (objectURLs (handleFileSelect (Some exOther) exDiscarded)) \<and>
   ''blob:0'' \<in> set (objectURLs (handleDrop [exOther] 7 exDiscarded))"
proof -
  have e: "''blob:0'' \<in> set (objectURLs exErrored)"
    by (simp add: exErrored_fields)
  have d: "''blob:0'' \<in> set (objectURLs exDiscarded)"
    by (simp add: exDiscarded_fields)
  show ?thesis
    using e d object_url_stays_registered [OF e, of None "[]" 0]
      object_url_stays_registered [OF d, of "Some exOther" "[exOther]" 7]
    by simp
qed

text \<open>
  Claim C2 as stated fails in a session the player offers: a video is picked and plays,
  the element fails with code 3 and the error panel shows; its source is \<open>blob:0\<close>.
  "Choose Different File" clears the source and leaves \<open>blob:0\<close> registered; on the
  upload screen that follows, picking another video, or dropping one, supersedes it and
  leaves \<open>blob:0\<close> registered still.
\<close>

theorem previous_url_not_revoked:
  "videoFile exErrored = Some ''blob:0'' \<and>
   videoError exErrored \<noteq> None \<and>
   videoFile (chooseDifferentFile exErrored) = None \<and>
   ''blob:0'' \<in> set (objectURLs (chooseDifferentFile exErrored)) \<and>
   videoFile exDiscarded = None \<and>
   videoFile (handleFileSelect (Some exOther) exDiscarded) = Some ''blob:1'' \<and>
   ''blob:0'' \<in> set (objectURLs (handleFileSelect (Some exOther) exDiscarded)) \<and>
   videoFile (handleDrop [exOther] 7 exDiscarded) = Some ''blob:1'' \<and>
   ''blob:0'' \<in> set (objectURLs (handleDrop [exOther] 7 exDiscarded))"
  by (simp add: exErrored_fields exDiscarded_fields chooseDifferentFile_def handleFileSelect_def
      handleDrop_def createObjectURL_def isVideoFile_def isSubtitleFile_def startsWith_def
      endsWith_def exOther_def toString_digit Let_def)

subsection \<open>Keyboard shortcuts\<close>

text \<open>
  Claim C3, as the code has it. A key event whose target is an \<open>HTMLInputElement\<close>, of
  any type, is ignored. On any other target Space and K toggle play/pause, M toggles
  mute, ArrowLeft and J skip backward, ArrowRight and L skip forward, each followed by
  showing the controls, and F toggles fullscreen.
\<close>

theorem keyboard_dispatch:
  "(instanceofHTMLInputElement (ev_target e) \<longrightarrow> handleKeyPress e s = (False, s)) \<and>
   (\<not> instanceofHTMLInputElement (ev_target e) \<longrightarrow>
      (ev_code e = ''Space'' \<or> ev_code e = ''KeyK'' \<longrightarrow>
         handleKeyPress e s = (True, showControlsWithTimeout (togglePlayPause s))) \<and>
      (ev_code e = ''KeyM'' \<longrightarrow>
         handleKeyPress e s = (True, showControlsWithTimeout (toggleMute s))) \<and>
      (ev_code e = ''ArrowLeft'' \<or> ev_code e = ''KeyJ'' \<longrightarrow>
         handleKeyPress e s = (True, showControlsWithTimeout (skipBackward s))) \<and>
      (ev_code e = ''ArrowRight'' \<or> ev_code e = ''KeyL'' \<longrightarrow>
         handleKeyPress e s = (True, showControlsWithTimeout (skipForward s))) \<and>
      (ev_code e = ''KeyF'' \<longrightarrow> handleKeyPress e s = (True, toggleFullscreen s)))"
  by (simp add: handleKeyPress_def)

theorem keyboard_dispatch_witness:
  "handleKeyPress \<lparr> ev_code = ''KeyK'', ev_target = OtherNode \<rparr> exLoaded =
     (True, showControlsWithTimeout (togglePlayPause exLoaded)) \<and>
   handleKeyPress \<lparr> ev_code = ''KeyK'', ev_target = HTMLInputElement TypeText \<rparr> exLoaded =
     (False, exLoaded)"
  using keyboard_dispatch [of "\<lparr> ev_code = ''KeyK'', ev_target = OtherNode \<rparr>" exLoaded]
    keyboard_dispatch
      [of "\<lparr> ev_code = ''KeyK'', ev_target = HTMLInputElement TypeText \<rparr>" exLoaded]
  by simp

text \<open>
  Claim C3 as stated fails when the volume slider, an input of type \<open>range\<close> and no
  text input, has the focus: Space is ignored, although toggling play/pause would have
  changed the loaded player.
\<close>

theorem slider_focus_blocks_shortcuts:
  "ev_target exSlider \<noteq> HTMLInputElement TypeText \<and>
   handleKeyPress exSlider exLoaded = (False, exLoaded) \<and>
   showControlsWithTimeout (togglePlayPause exLoaded) \<noteq> exLoaded"
proof -
  have "el_paused (the (videoRef (showControlsWithTimeout (togglePlayPause exLoaded)))) = False"
    by (simp add: control_defs exLoaded_videoRef exLoaded_paused Let_def split: option.splits)
  moreover have "el_paused (the (videoRef exLoaded)) = True"
    by (simp add: exLoaded_videoRef newVideoElement_def)
  ultimately have "showControlsWithTimeout (togglePlayPause exLoaded) \<noteq> exLoaded"
    by metis
  moreover have "handleKeyPress exSlider exLoaded = (False, exLoaded)"
    by (simp add: handleKeyPress_def exSlider_def)
  ultimately show ?thesis by (simp add: exSlider_def)
qed

subsection \<open>Controls visibility\<close>

text \<open>
  Claim C4. Showing the controls leaves a 3000 ms timer pending exactly when
  \<open>isPlaying\<close> holds, and no turn of the event loop leaves a timer pending unless one
  was pending before or \<open>isPlaying\<close> holds. The pointer leaving the player hides the
  controls if \<open>isPlaying\<close> holds and changes nothing otherwise, so the overlay is opaque
  afterwards exactly when playback is paused. While paused the overlay is opaque, also
  after a pending timer fires, and it is opaque after the native \<open>pause\<close> event.
\<close>

theorem controls_visibility:
  "controlsTimeoutRef (showControlsWithTimeout s) = (if isPlaying s then Some 3000 else None) \<and>
   (controlsTimeoutRef (step bar e s) \<noteq> None \<longrightarrow> controlsTimeoutRef s \<noteq> None \<or> isPlaying s) \<and>
   handleMouseLeave s = (if isPlaying s then s\<lparr>showControls := False\<rparr> else s) \<and>
   controlsOpaque (handleMouseLeave s) = (\<not> isPlaying s) \<and>
   (\<not> isPlaying s \<longrightarrow> controlsOpaque s \<and> controlsOpaque (timerFires s)) \<and>
   controlsOpaque (handlePause s)"
proof -
  have "controlsTimeoutRef (step bar e s) \<noteq> None \<longrightarrow> controlsTimeoutRef s \<noteq> None \<or> isPlaying s"
    using handle_timer [of e s] by (simp add: step_def)
  moreover have "controlsOpaque (handleMouseLeave s) = (\<not> isPlaying s)"
    by (simp add: controlsOpaque_def handleMouseLeave_def)
  moreover have "\<not> isPlaying s \<longrightarrow> controlsOpaque s \<and> controlsOpaque (timerFires s)"
    by (simp add: controlsOpaque_def timerFires_def split: option.splits)
  moreover have "controlsOpaque (handlePause s)"
    by (simp add: controlsOpaque_def handlePause_def)
  ultimately show ?thesis
    by (simp add: showControlsWithTimeout_timer handleMouseLeave_def)
qed

theorem controls_visibility_witness:
  "isPlaying exPlaying \<and>
   controlsTimeoutRef (showControlsWithTimeout exPlaying) = Some 3000 \<and>
   \<not> controlsOpaque (handleMouseLeave exPlaying) \<and>
   \<not> isPlaying exLoaded \<and>
   controlsTimeoutRef (showControlsWithTimeout exLoaded) = None \<and>
   controlsOpaque (timerFires exLoaded)"
proof -
  have p: "isPlaying exPlaying"
    by (simp add: exPlaying_def handlePlay_def)
  show ?thesis
    using p exLoaded_paused controls_visibility [of exPlaying exBar MouseMove]
      controls_visibility [of exLoaded exBar MouseMove]
    by auto
qed

subsection \<open>Error translation\<close>

text \<open>
  Claim C5. When the native element carries an error, the handler surfaces
  "Video loading was aborted" for code 1, "Network error occurred while loading video"
  for code 2, "Video format not supported or corrupted" for code 3, "Video format not
  supported by your browser" for code 4 and "Unknown video error occurred" for any other
  code, and it sets \<open>isPlaying\<close> and \<open>isBuffering\<close> to false.
\<close>

theorem error_translation:
  assumes "videoRef s = Some el" and "el_error el = Some code"
  shows "(code = 1 \<longrightarrow> videoError (handleError s) = Some ''Video loading was aborted'') \<and>
         (code = 2 \<longrightarrow>
            videoError (handleError s) = Some ''Network error occurred while loading video'') \<and>
         (code = 3 \<longrightarrow>
            videoError (handleError s) = Some ''Video format not supported or corrupted'') \<and>
         (code = 4 \<longrightarrow>
            videoError (handleError s) = Some ''Video format not supported by your browser'') \<and>
         (code \<noteq> 1 \<and> code \<noteq> 2 \<and> code \<noteq> 3 \<and> code \<noteq> 4 \<longrightarrow>
            videoError (handleError s) = Some ''Unknown video error occurred'') \<and>
         \<not> isPlaying (handleError s) \<and> \<not> isBuffering (handleError s)"
  using assms by (simp add: handleError_def errorMessage_def Let_def)

theorem error_translation_witness:
  "videoError (handleError (exFailed 3)) = Some ''Video format not supported or corrupted'' \<and>
   videoError (handleError (exFailed 9)) = Some ''Unknown video error occurred'' \<and>
   isPlaying (exFailed 3) \<and> \<not> isPlaying (handleError (exFailed 3))"
proof -
  have "isPlaying (exFailed 3)"
    by (simp add: exFailed_def exPlaying_def handlePlay_def exLoaded_videoRef)
  then show ?thesis
    using error_translation [OF exFailed_videoRef [of 3], of 3]
      error_translation [OF exFailed_videoRef [of 9], of 9]
    by (simp add: newVideoElement_def)
qed

text \<open>
  Claim C10. When the \<open>error\<close> event arrives and the element carries no error object
  (or no element is mounted), the handler sets \<open>isPlaying\<close> and \<open>isBuffering\<close> to false
  and changes nothing else; the error message stays what it was.
\<close>

theorem error_without_error_object:
  assumes "videoRef s = None \<or> (\<exists>el. videoRef s = Some el \<and> el_error el = None)"
  shows "handleError s = s\<lparr>isBuffering := False, isPlaying := False\<rparr> \<and>
         videoError (handleError s) = videoError s \<and>
         \<not> isPlaying (handleError s) \<and> \<not> isBuffering (handleError s)"
  using assms by (auto simp: handleError_def Let_def)

theorem error_without_error_object_witness:
  "isPlaying exPlaying \<and>
   videoRef exPlaying = Some (newVideoElement ''blob:0'') \<and>
   el_error (newVideoElement ''blob:0'') = None \<and>
   videoError (handleError exPlaying) = videoError exPlaying \<and>
   \<not> isPlaying (handleError exPlaying) \<and> \<not> isBuffering (handleError exPlaying)"
proof -
  have v: "videoRef exPlaying = Some (newVideoElement ''blob:0'')"
    by (simp add: exPlaying_def handlePlay_def exLoaded_videoRef)
  have n: "el_error (newVideoElement ''blob:0'') = None"
    by (simp add: newVideoElement_def)
  have p: "isPlaying exPlaying"
    by (simp add: exPlaying_def handlePlay_def)
  from v n have "videoRef exPlaying = None \<or>
      (\<exists>el. videoRef exPlaying = Some el \<and> el_error el = None)"
    by simp
  from error_without_error_object [OF this] v n p show ?thesis by simp
qed

subsection \<open>Volume\<close>

text \<open>
  Claim C6. For a volume \<open>v\<close> in \<open>[0, 1]\<close> the change raises nothing, stores \<open>v\<close> as the
  volume and \<open>v = 0\<close> as the muted flag, and writes the same two values to the native
  element when one is mounted.
\<close>

theorem volume_change:
  assumes "0 \<le> v" and "v \<le> 1"
  shows "fst (handleVolumeChange v s) = None \<and>
         volume (snd (handleVolumeChange v s)) = v \<and>
         isMuted (snd (handleVolumeChange v s)) = (v = 0) \<and>
         videoRef (snd (handleVolumeChange v s)) =
           map_option (\<lambda>el. el\<lparr>el_volume := v, el_muted := (v = 0)\<rparr>) (videoRef s)"
  using assms by (simp add: handleVolumeChange_def set_el_volume_def Let_def split: option.splits)

theorem volume_change_witness:
  "(0::real) \<le> 0 \<and> (0::real) \<le> 1 \<and>
   isMuted (snd (handleVolumeChange 0 exLoaded)) \<and>
   \<not> isMuted (snd (handleVolumeChange (1/2) exLoaded)) \<and>
   videoRef (snd (handleVolumeChange (1/2) exLoaded)) =
     Some ((newVideoElement ''blob:0'')\<lparr>el_volume := 1/2, el_muted := False\<rparr>)"
  using volume_change [of 0 exLoaded] volume_change [of "1/2" exLoaded]
  by (simp add: exLoaded_videoRef)

text \<open>
  Claim C9, as the code has it. With the element mounted, the mute toggle negates the
  stored muted flag and writes the negated stored value to the native element, whose own
  flag it does not read: the native flag is flipped when the two agreed and left as it
  was when they differed. The stored volume and the native volume stay as they were.
\<close>

theorem mute_toggle_frame:
  assumes "videoRef s = Some el"
  shows "isMuted (toggleMute s) = (\<not> isMuted s) \<and>
         videoRef (toggleMute s) = Some (el\<lparr>el_muted := \<not> isMuted s\<rparr>) \<and>
         (el_muted el = isMuted s \<longrightarrow>
            map_option el_muted (videoRef (toggleMute s)) = Some (\<not> el_muted el)) \<and>
         (el_muted el \<noteq> isMuted s \<longrightarrow>
            map_option el_muted (videoRef (toggleMute s)) = Some (el_muted el)) \<and>
         volume (toggleMute s) = volume s \<and>
         map_option el_volume (videoRef (toggleMute s)) = Some (el_volume el)"
  using assms by (simp add: toggleMute_def)

theorem mute_toggle_frame_witness:
  "videoRef exLoaded = Some (newVideoElement ''blob:0'') \<and>
   el_muted (newVideoElement ''blob:0'') = isMuted exLoaded \<and>
   isMuted (toggleMute exLoaded) \<and>
   map_option el_muted (videoRef (toggleMute exLoaded)) = Some True \<and>
   volume (toggleMute exLoaded) = volume exLoaded \<and>
   videoRef exRemounted = Some (newVideoElement ''blob:1'') \<and>
   el_muted (newVideoElement ''blob:1'') \<noteq> isMuted exRemounted \<and>
   map_option el_muted (videoRef (toggleMute exRemounted)) = Some False \<and>
   volume (toggleMute exRemounted) = volume exRemounted"
proof -
  have m: "\<not> isMuted exLoaded"
    by (simp add: intake_defs example_defs)
  show ?thesis
    using m exLoaded_videoRef exRemounted_muted exRemounted_videoRef
      mute_toggle_frame [OF exLoaded_videoRef] mute_toggle_frame [OF exRemounted_videoRef]
    by (simp add: newVideoElement_def)
qed

text \<open>
  Claim C9 as stated fails after a muted video was discarded and another one picked:
  the stored flag is still true, the new element starts unmuted, and the toggle clears
  the stored flag while the native flag stays false.
\<close>

theorem mute_toggle_after_remount:
  "isMuted exRemounted \<and>
   map_option el_muted (videoRef exRemounted) = Some False \<and>
   \<not> isMuted (toggleMute exRemounted) \<and>
   map_option el_muted (videoRef (toggleMute exRemounted)) = Some False"
  using exRemounted_muted exRemounted_videoRef
  by (simp add: toggleMute_def newVideoElement_def)

subsection \<open>Seeking\<close>

text \<open>
  Claim C7. With the element at position \<open>t\<close>, skip-backward sets the position to
  \<open>max 0 (t - 10)\<close>; skip-forward sets it to \<open>min d (t + 10)\<close> for a stored duration
  \<open>d\<close>, which is \<open>t + 10\<close> when the stored duration is \<open>Infinity\<close>.
\<close>

theorem skip_clamped:
  assumes "videoRef s = Some el" and "el_currentTime el = t"
  shows "videoRef (skipBackward s) = Some (el\<lparr>el_currentTime := max 0 (t - 10)\<rparr>) \<and>
         (duration s = Finite d \<longrightarrow>
            videoRef (skipForward s) = Some (el\<lparr>el_currentTime := min d (t + 10)\<rparr>)) \<and>
         (duration s = Infinity \<longrightarrow>
            videoRef (skipForward s) = Some (el\<lparr>el_currentTime := t + 10\<rparr>))"
  using assms by (simp add: skipBackward_def skipForward_def)

theorem skip_clamped_witness:
  "duration exWatching = Finite (627 / 5) \<and>
   map_option el_currentTime (videoRef (skipBackward exWatching)) = Some 110 \<and>
   map_option el_currentTime (videoRef (skipForward exWatching)) = Some (627 / 5) \<and>
   map_option el_currentTime (videoRef (skipBackward exLoaded)) = Some 0 \<and>
   duration exStreaming = Infinity \<and>
   map_option el_currentTime (videoRef (skipForward exStreaming)) = Some 130"
proof -
  have t: "el_currentTime ((newVideoElement ''blob:0'')
             \<lparr>el_duration := Finite (627 / 5), el_currentTime := 120\<rparr>) = 120"
    by simp
  have u: "el_currentTime ((newVideoElement ''blob:0'')
             \<lparr>el_duration := Infinity, el_currentTime := 120\<rparr>) = 120"
    by simp
  have z: "el_currentTime (newVideoElement ''blob:0'') = 0"
    by (simp add: newVideoElement_def)
  show ?thesis
    using skip_clamped [OF exWatching_videoRef t, where d = "627 / 5"]
      skip_clamped [OF exLoaded_videoRef z, where d = 0]
      skip_clamped [OF exStreaming_videoRef u, where d = 0]
    by (simp add: exWatching_duration exStreaming_duration)
qed

text \<open>
  Claim C8, as the code has it. With a finite stored duration \<open>d\<close>, a click on the
  mounted progress bar, of non-zero width, at the fraction \<open>f = clickX / width\<close> of the
  bar raises nothing and seeks the native element to \<open>f * d\<close>; this holds for every
  offset, those with \<open>f\<close> in \<open>[0, 1]\<close> among them.
\<close>

theorem progress_click_seek:
  assumes "progressRef s = Some r" and "videoRef s = Some el" and "rect_width r \<noteq> 0"
    and "f = (clientX - rect_left r) / rect_width r" and "duration s = Finite d"
  shows "handleProgressClick clientX s =
           (None, s\<lparr>videoRef := Some (el\<lparr>el_currentTime := f * d\<rparr>)\<rparr>)"
  using assms by (simp add: handleProgressClick_def js_divide_def Let_def)

theorem progress_click_seek_witness:
  "rect_width exBar \<noteq> 0 \<and> (1 / 4 :: real) = (200 - rect_left exBar) / rect_width exBar \<and>
   duration exWatching = Finite (627 / 5) \<and>
   fst (handleProgressClick 200 exWatching) = None \<and>
   map_option el_currentTime (videoRef (snd (handleProgressClick 200 exWatching))) =
     Some (627 / 20)"
proof -
  have w: "rect_width exBar \<noteq> 0"
    by (simp add: exBar_def)
  have f: "(1 / 4 :: real) = (200 - rect_left exBar) / rect_width exBar"
    by (simp add: exBar_def)
  show ?thesis
    using w f
      progress_click_seek
        [OF exWatching_progressRef exWatching_videoRef w f exWatching_duration]
    by (simp add: exWatching_duration)
qed

text \<open>
  Claim C8 as stated fails once the element has reported an infinite duration: a click
  a quarter along the bar raises \<open>TypeError\<close> and the player, the position of the
  native element included, is as it was.
\<close>

theorem progress_click_infinite_duration:
  "duration exStreaming = Infinity \<and>
   (1 / 4 :: real) = (200 - rect_left exBar) / rect_width exBar \<and>
   handleProgressClick 200 exStreaming = (Some TypeError, exStreaming) \<and>
   map_option el_currentTime (videoRef exStreaming) = Some 120"
  by (simp add: handleProgressClick_def js_divide_def exStreaming_progressRef
      exStreaming_videoRef exStreaming_duration exBar_def Let_def)

end
